theory Spec2Isabelle
  imports Complex_Main "HOL-Library.Product_Lexorder" "HOL-Library.List_Lexorder" "HOL-Library.Char_ord"
begin

section \<open>Exceptions\<close>

text \<open>
  Every way the program can stop early is a value: \<open>sys.exit(n)\<close> and \<open>exit(n)\<close> raise
  \<open>SystemExit n\<close>; the other constructors are the exceptions of the Python library that
  the modelled calls can raise and that the program does not catch.
\<close>

datatype error = SystemExit int | OSError | ValueError | OverflowError | IndexError
  | KeyError | TypeError | AttributeError | ZeroDivisionError

section \<open>Dates and times\<close>

text \<open>
  A naive \<open>datetime.datetime\<close>: the seven fields of the object. Python compares two
  naive datetimes field by field, from the year down to the microsecond.
\<close>

datatype datetime = Datetime (year: int) (month: int) (day: int)
  (hour: int) (minute: int) (second: int) (microsecond: int)

definition dt_key :: "datetime \<Rightarrow> int \<times> int \<times> int \<times> int \<times> int \<times> int \<times> int" where
  "dt_key dt = (year dt, month dt, day dt, hour dt, minute dt, second dt, microsecond dt)"

instantiation datetime :: linorder
begin
definition less_eq_datetime :: "datetime \<Rightarrow> datetime \<Rightarrow> bool" where
  "less_eq_datetime a b \<longleftrightarrow> dt_key a \<le> dt_key b"
definition less_datetime :: "datetime \<Rightarrow> datetime \<Rightarrow> bool" where
  "less_datetime a b \<longleftrightarrow> dt_key a < dt_key b"
instance
proof
  fix x y z :: datetime
  show "(x < y) = (x \<le> y \<and> \<not> y \<le> x)"
    by (auto simp: less_eq_datetime_def less_datetime_def)
  show "x \<le> x" by (simp add: less_eq_datetime_def)
  show "x \<le> y \<Longrightarrow> y \<le> z \<Longrightarrow> x \<le> z"
    by (auto simp: less_eq_datetime_def)
  show "x \<le> y \<Longrightarrow> y \<le> x \<Longrightarrow> x = y"
    by (cases x; cases y) (auto simp: less_eq_datetime_def dt_key_def)
  show "x \<le> y \<or> y \<le> x"
    by (auto simp: less_eq_datetime_def)
qed
end

subsection \<open>The proleptic Gregorian calendar of the datetime module\<close>

text \<open>
  The day arithmetic of \<open>datetime\<close> goes through the ordinal of a date (1 January of
  year 1 is day 1). The functions below are the library's own: \<open>_is_leap\<close>,
  \<open>_days_before_year\<close>, \<open>_days_in_month\<close>, \<open>_days_before_month\<close>, \<open>_ymd2ord\<close> and
  \<open>_ord2ymd\<close>, with Python's floor division \<open>//\<close> as \<open>div\<close> on \<open>int\<close>.
\<close>

definition MINYEAR :: int where "MINYEAR = 1"
definition MAXYEAR :: int where "MAXYEAR = 9999"
definition MAXORDINAL :: int where "MAXORDINAL = 3652059"

definition is_leap :: "int \<Rightarrow> bool" where
  "is_leap y \<longleftrightarrow> y mod 4 = 0 \<and> (y mod 100 \<noteq> 0 \<or> y mod 400 = 0)"

definition days_before_year :: "int \<Rightarrow> int" where
  "days_before_year y = (let y1 = y - 1 in y1 * 365 + y1 div 4 - y1 div 100 + y1 div 400)"

definition DAYS_IN_MONTH :: "int list" where
  "DAYS_IN_MONTH = [-1, 31, 28, 31, 30, 31, 30, 31, 31, 30, 31, 30, 31]"

definition DAYS_BEFORE_MONTH :: "int list" where
  "DAYS_BEFORE_MONTH = [-1, 0, 31, 59, 90, 120, 151, 181, 212, 243, 273, 304, 334]"

text \<open>Both tables are only read at a month between 1 and 12.\<close>

definition days_in_month :: "int \<Rightarrow> int \<Rightarrow> int" where
  "days_in_month y m = (if m = 2 \<and> is_leap y then 29 else DAYS_IN_MONTH ! nat m)"

definition days_before_month :: "int \<Rightarrow> int \<Rightarrow> int" where
  "days_before_month y m = DAYS_BEFORE_MONTH ! nat m + (if m > 2 \<and> is_leap y then 1 else 0)"

definition ymd2ord :: "int \<Rightarrow> int \<Rightarrow> int \<Rightarrow> int" where
  "ymd2ord y m d = days_before_year y + days_before_month y m + d"

text \<open>
  The tail of \<open>_ord2ymd\<close>: month and day of the day with index \<open>n\<close> (from 0) in its
  year, from the estimate \<open>(n + 50) >> 5\<close> corrected downwards when it is too large.
\<close>

definition month_day :: "bool \<Rightarrow> int \<Rightarrow> int \<times> int" where
  "month_day leapyear n =
     (let m = (n + 50) div 32;
          preceding = DAYS_BEFORE_MONTH ! nat m + (if m > 2 \<and> leapyear then 1 else 0)
      in if preceding > n
         then let m' = m - 1;
                  preceding' = preceding
                    - (DAYS_IN_MONTH ! nat m' + (if m' = 2 \<and> leapyear then 1 else 0))
              in (m', n - preceding' + 1)
         else (m, n - preceding + 1))"

definition ord2ymd :: "int \<Rightarrow> int \<times> int \<times> int" where
  "ord2ymd n0 =
     (let n = n0 - 1;
          n400 = n div 146097; n = n mod 146097;
          n100 = n div 36524; n = n mod 36524;
          n4 = n div 1461; n = n mod 1461;
          n1 = n div 365; n = n mod 365;
          y = n400 * 400 + 1 + n100 * 100 + n4 * 4 + n1
      in if n1 = 4 \<or> n100 = 4 then (y - 1, 12, 31)
         else (y, month_day (n1 = 3 \<and> (n4 \<noteq> 24 \<or> n100 = 3)) n))"

text \<open>
  \<open>valid_datetime\<close> is what the constructor \<open>datetime(...)\<close> checks; a value that fails
  the check raises \<open>ValueError\<close>.
\<close>

definition valid_datetime :: "datetime \<Rightarrow> bool" where
  "valid_datetime dt \<longleftrightarrow>
     MINYEAR \<le> year dt \<and> year dt \<le> MAXYEAR \<and> 1 \<le> month dt \<and> month dt \<le> 12
     \<and> 1 \<le> day dt \<and> day dt \<le> days_in_month (year dt) (month dt)
     \<and> 0 \<le> hour dt \<and> hour dt \<le> 23 \<and> 0 \<le> minute dt \<and> minute dt \<le> 59
     \<and> 0 \<le> second dt \<and> second dt \<le> 59 \<and> 0 \<le> microsecond dt \<and> microsecond dt \<le> 999999"

definition datetime :: "int \<Rightarrow> int \<Rightarrow> int \<Rightarrow> int \<Rightarrow> int \<Rightarrow> int \<Rightarrow> error + datetime" where
  "datetime y m d hh mm ss =
     (let dt = Datetime y m d hh mm ss 0
      in if valid_datetime dt then Inr dt else Inl ValueError)"

definition toordinal :: "datetime \<Rightarrow> int" where
  "toordinal dt = ymd2ord (year dt) (month dt) (day dt)"

definition weekday :: "datetime \<Rightarrow> int" where
  "weekday dt = (toordinal dt + 6) mod 7"

text \<open>
  \<open>dt + timedelta(days=k)\<close>: the ordinal moves by \<open>k\<close>, the time of day stays, and a
  result outside the years 1 to 9999 raises \<open>OverflowError\<close> (as does a \<open>timedelta\<close>
  of more than 999999999 days).
\<close>

definition shift_days :: "datetime \<Rightarrow> int \<Rightarrow> datetime" where
  "shift_days dt k =
     (case ord2ymd (toordinal dt + k) of
        (y, m, d) \<Rightarrow> Datetime y m d (hour dt) (minute dt) (second dt) (microsecond dt))"

definition add_days :: "datetime \<Rightarrow> int \<Rightarrow> error + datetime" where
  "add_days dt k =
     (if \<bar>k\<bar> > 999999999 then Inl OverflowError
      else if 0 < toordinal dt + k \<and> toordinal dt + k \<le> MAXORDINAL
      then Inr (shift_days dt k) else Inl OverflowError)"

definition sub_days :: "datetime \<Rightarrow> int \<Rightarrow> error + datetime" where
  "sub_days dt k = add_days dt (- k)"

section \<open>Configuration, log and destination\<close>

text \<open>
  The attributes of \<open>PyTimeMachine\<close> that \<open>_read_config\<close> fills in. The four retention
  thresholds are the entries of the \<open>smart_remove\<close> dictionary; the configuration
  values are integers.
\<close>

record config =
  sources :: "string list"
  destination :: string
  exclude :: "string list"
  min_space :: int
  min_inodes :: int
  conf_keep_all :: int
  conf_keep_one_per_day :: int
  conf_keep_one_per_week :: int
  conf_keep_one_per_month :: int
  rsh_command :: "string option"

text \<open>The dictionary that \<open>_get_stat\<close> returns (the entries the program reads).\<close>

record stat =
  ffree :: int
  files :: int
  bavail :: int
  bsize :: int
  blocks :: int

text \<open>
  A call of \<open>logging.info\<close> or \<open>logging.error\<close>: the level, the format string and
  its arguments.
\<close>

datatype level = INFO | ERROR

datatype arg = I int | S string

type_synonym log_entry = "level \<times> string \<times> arg list"

text \<open>
  The destination's filesystem is a table from paths, spelled as the program spells
  them, to what is there: a directory, a regular file, or a symbolic link with its
  contents.
\<close>

datatype node = Dir | File | Symlink string

type_synonym filesystem = "(string \<times> node) list"

text \<open>
  What a run changes: the filesystem, the log, and the attribute \<open>_check_inodes\<close>.
\<close>

record world =
  fs :: filesystem
  log :: "log_entry list"
  check_inodes :: bool

definition logging :: "level \<Rightarrow> string \<Rightarrow> arg list \<Rightarrow> world \<Rightarrow> world" where
  "logging lv msg args w = w\<lparr>log := log w @ [(lv, msg, args)]\<rparr>"

text \<open>
  The configuration that \<open>__init__\<close> sets up when the file gives only a source and a
  destination, and statistics of a filesystem that reports no inode total.
\<close>

definition default_conf :: config where
  "default_conf =
     \<lparr>sources = [''/home''], destination = ''/backup'', exclude = [], min_space = 1024,
      min_inodes = 100000, conf_keep_all = 1, conf_keep_one_per_day = 7,
      conf_keep_one_per_week = 4, conf_keep_one_per_month = 12, rsh_command = None\<rparr>"


section \<open>Capacity check\<close>

definition ONEM :: real where "ONEM = 1048576"

text \<open>
  \<open>_check_freespace\<close>, given what \<open>_get_stat\<close> returned (or raised). The quotient
  \<open>stat['bavail'] * stat['bsize'] / ONEM\<close> is a float in the program and a real number
  here; the two comparisons agree whenever \<open>min_space\<close> is at most \<open>2 ^ 33\<close>, since
  every product below \<open>2 ^ 53\<close> converts to a float exactly and a larger one stays at
  or above \<open>2 ^ 53\<close>.
\<close>

definition check_freespace :: "config \<Rightarrow> error + stat \<Rightarrow> world \<Rightarrow> (error + stat) \<times> world" where
  "check_freespace conf got w =
     (case got of
        Inl e \<Rightarrow> (Inl e, w)
      | Inr st \<Rightarrow>
          let w1 = (if files st = 0 then w\<lparr>check_inodes := False\<rparr> else w)
          in if files st \<noteq> 0 \<and> ffree st < min_inodes conf
             then (Inl (SystemExit 2),
                   logging INFO ''Backup task aborted!'' []
                     (logging ERROR
                        (''Error: not enough inodes, the backup filesystem has %d free ''
                           @ ''inodes, the minimum requirement is %d'')
                        [I (ffree st), I (min_inodes conf)] w1))
             else
               let space_free = real_of_int (bavail st * bsize st) / ONEM
               in if space_free < real_of_int (min_space conf)
                  then (Inl (SystemExit 2),
                        logging INFO ''Backup task aborted!'' []
                          (logging ERROR
                             (''Error: not enough space, the backup filesystem has %.0f MB ''
                                @ ''free space, the minimum requirement is %d MB'')
                             [I (bavail st * bsize st), I (min_space conf)] w1))
                  else (Inr st, w1))"

section \<open>Retention\<close>

text \<open>
  A snapshot as \<open>_find_snapshots\<close> returns it: the pair of the timestamp parsed from
  the directory name and the path of the directory. Python sorts such pairs by the
  timestamp first and the path second, which is the lexicographic order on the pair.
\<close>

type_synonym snapshot = "datetime \<times> string"

definition bind_err :: "error + 'a \<Rightarrow> ('a \<Rightarrow> error + 'b) \<Rightarrow> error + 'b" where
  "bind_err m f = (case m of Inl e \<Rightarrow> Inl e | Inr x \<Rightarrow> f x)"

definition keep_all :: "snapshot list \<Rightarrow> datetime \<Rightarrow> datetime \<Rightarrow> string list" where
  "keep_all snapshots min_date max_date =
     map snd (filter (\<lambda>(dt, spath). min_date \<le> dt \<and> dt \<le> max_date) snapshots)"

definition keep_last :: "snapshot list \<Rightarrow> datetime \<Rightarrow> datetime \<Rightarrow> string list" where
  "keep_last snapshots min_date max_date =
     (let res = filter (\<lambda>(dt, spath). min_date \<le> dt \<and> dt < max_date) snapshots
      in if res \<noteq> [] then [snd (last (sort res))] else [])"

definition inc_month :: "datetime \<Rightarrow> error + datetime" where
  "inc_month dt =
     (let y = year dt; m = month dt + 1
      in if m > 12 then datetime (y + 1) 1 1 0 0 0 else datetime y m 1 0 0 0)"

definition dec_month :: "datetime \<Rightarrow> error + datetime" where
  "dec_month dt =
     (let y = year dt; m = month dt - 1
      in if m < 1 then datetime (y - 1) 12 1 0 0 0 else datetime y m 1 0 0 0)"

text \<open>
  The four loops of \<open>_smart_remove\<close>, each returning what it appends to
  \<open>keep_snapshots\<close>. The loop over the days assigns to \<open>today\<close>, so it also returns the
  value that \<open>today\<close> has when the loop is left.
\<close>

fun per_day_loop :: "snapshot list \<Rightarrow> datetime \<Rightarrow> nat \<Rightarrow> error + (string list \<times> datetime)" where
  "per_day_loop snapshots today 0 = Inr ([], today)"
| "per_day_loop snapshots today (Suc n) =
     bind_err (add_days today 1) (\<lambda>tomorrow.
       let tmp = keep_last snapshots today tomorrow
       in bind_err (sub_days today 1) (\<lambda>today'.
            bind_err (per_day_loop snapshots today' n) (\<lambda>(rest, t). Inr (tmp @ rest, t))))"

fun per_week_loop :: "snapshot list \<Rightarrow> datetime \<Rightarrow> nat \<Rightarrow> error + string list" where
  "per_week_loop snapshots d 0 = Inr []"
| "per_week_loop snapshots d (Suc n) =
     bind_err (add_days d 8) (\<lambda>d8.
       let tmp = keep_last snapshots d d8
       in bind_err (sub_days d 7) (\<lambda>d'.
            bind_err (per_week_loop snapshots d' n) (\<lambda>rest. Inr (tmp @ rest))))"

definition per_week :: "snapshot list \<Rightarrow> datetime \<Rightarrow> nat \<Rightarrow> error + string list" where
  "per_week snapshots today n =
     bind_err (sub_days today (weekday today + 1)) (\<lambda>d. per_week_loop snapshots d n)"

fun per_month_loop :: "snapshot list \<Rightarrow> datetime \<Rightarrow> datetime \<Rightarrow> nat \<Rightarrow> error + string list" where
  "per_month_loop snapshots d1 d2 0 = Inr []"
| "per_month_loop snapshots d1 d2 (Suc n) =
     (let tmp = keep_last snapshots d1 d2
      in bind_err (dec_month d1) (\<lambda>d1'.
           bind_err (per_month_loop snapshots d1' d1 n) (\<lambda>rest. Inr (tmp @ rest))))"

definition per_month :: "snapshot list \<Rightarrow> datetime \<Rightarrow> nat \<Rightarrow> error + string list" where
  "per_month snapshots now n =
     bind_err (datetime (year now) (month now) 1 0 0 0) (\<lambda>d1.
       bind_err (inc_month d1) (\<lambda>d2. per_month_loop snapshots d1 d2 n))"

fun per_year_loop :: "snapshot list \<Rightarrow> int list \<Rightarrow> error + string list" where
  "per_year_loop snapshots [] = Inr []"
| "per_year_loop snapshots (i # years) =
     bind_err (datetime i 1 1 0 0 0) (\<lambda>lo.
       bind_err (datetime (i + 1) 1 1 0 0 0) (\<lambda>hi.
         let tmp = keep_last snapshots lo hi
         in bind_err (per_year_loop snapshots years) (\<lambda>rest. Inr (tmp @ rest))))"

text \<open>
  The list \<open>keep_snapshots\<close> of \<open>_smart_remove\<close> before it is turned into a set, for
  the sorted list \<open>snapshots\<close> and the time \<open>now\<close> that \<open>utcnow()\<close> returned. Reading
  \<open>snapshots[-1]\<close> of an empty list raises \<open>IndexError\<close>.
\<close>

definition keep_snapshots :: "config \<Rightarrow> datetime \<Rightarrow> snapshot list \<Rightarrow> error + string list" where
  "keep_snapshots conf now snapshots =
     bind_err (datetime (year now) (month now) (day now) 0 0 0) (\<lambda>today.
     if snapshots = [] then Inl IndexError
     else
       bind_err (if conf_keep_all conf > 0
                 then bind_err (sub_days now (conf_keep_all conf))
                        (\<lambda>lo. Inr (keep_all snapshots lo now))
                 else Inr []) (\<lambda>k_all.
       bind_err (if conf_keep_one_per_day conf > 0
                 then per_day_loop snapshots today (nat (conf_keep_one_per_day conf))
                 else Inr ([], today)) (\<lambda>(k_day, today').
       bind_err (if conf_keep_one_per_week conf > 0
                 then per_week snapshots today' (nat (conf_keep_one_per_week conf))
                 else Inr []) (\<lambda>k_week.
       bind_err (if conf_keep_one_per_month conf > 0
                 then per_month snapshots now (nat (conf_keep_one_per_month conf))
                 else Inr []) (\<lambda>k_month.
       bind_err (per_year_loop snapshots [year (fst (hd snapshots)) .. year now]) (\<lambda>k_year.
         Inr ([snd (last snapshots)] @ k_all @ k_day @ k_week @ k_month @ k_year)))))))"

text \<open>
  The list \<open>del_snapshots\<close> of \<open>_smart_remove\<close>: empty when there is at most one
  snapshot (the function returns at once), and otherwise the paths of the sorted list
  that are not in the keep set.
\<close>

definition del_snapshots :: "config \<Rightarrow> datetime \<Rightarrow> snapshot list \<Rightarrow> error + string list" where
  "del_snapshots conf now snapshots =
     (if length snapshots \<le> 1 then Inr []
      else bind_err (keep_snapshots conf now (sort snapshots)) (\<lambda>keep.
             Inr (filter (\<lambda>s. s \<notin> set keep) (map snd (sort snapshots)))))"

section \<open>Paths and the filesystem\<close>

text \<open>\<open>os.path.join\<close> of two components, and \<open>os.path.dirname\<close>.\<close>

definition path_join :: "string \<Rightarrow> string \<Rightarrow> string" where
  "path_join a b =
     (if b \<noteq> [] \<and> hd b = CHR ''/'' then b
      else if a = [] \<or> last a = CHR ''/'' then a @ b
      else a @ ''/'' @ b)"

definition dirname :: "string \<Rightarrow> string" where
  "dirname p =
     (let head = rev (dropWhile (\<lambda>c. c \<noteq> CHR ''/'') (rev p))
      in if head \<noteq> [] \<and> (\<exists>c \<in> set head. c \<noteq> CHR ''/'')
         then rev (dropWhile (\<lambda>c. c = CHR ''/'') (rev head))
         else head)"

text \<open>
  Looking a path up follows symbolic links, each link resolved against the directory
  that holds it, and gives up after 40 links as the kernel does. \<open>None\<close> is a path
  that does not resolve.
\<close>

fun follow :: "nat \<Rightarrow> filesystem \<Rightarrow> string \<Rightarrow> node option" where
  "follow 0 t p = None"
| "follow (Suc n) t p =
     (case map_of t p of
        None \<Rightarrow> None
      | Some (Symlink target) \<Rightarrow> follow n t (path_join (dirname p) target)
      | Some nd \<Rightarrow> Some nd)"

definition os_path_exists :: "filesystem \<Rightarrow> string \<Rightarrow> bool" where
  "os_path_exists t p \<longleftrightarrow> follow 41 t p \<noteq> None"

definition os_path_lexists :: "filesystem \<Rightarrow> string \<Rightarrow> bool" where
  "os_path_lexists t p \<longleftrightarrow> map_of t p \<noteq> None"

definition os_path_islink :: "filesystem \<Rightarrow> string \<Rightarrow> bool" where
  "os_path_islink t p \<longleftrightarrow> (case map_of t p of Some (Symlink target) \<Rightarrow> True | _ \<Rightarrow> False)"

definition os_readlink :: "filesystem \<Rightarrow> string \<Rightarrow> error + string" where
  "os_readlink t p = (case map_of t p of Some (Symlink target) \<Rightarrow> Inr target | _ \<Rightarrow> Inl OSError)"

definition unlink :: "string \<Rightarrow> filesystem \<Rightarrow> filesystem" where
  "unlink p t = filter (\<lambda>(q, nd). q \<noteq> p) t"

text \<open>
  The calls of the \<open>os\<close> and \<open>shutil\<close> modules that change the filesystem. Each raises
  \<open>OSError\<close> (one of its subclasses) where the state of the path forbids the call:
  \<open>os.remove\<close> of a missing path or of a directory, \<open>os.mkdir\<close>, \<open>os.makedirs\<close> and
  \<open>os.symlink\<close> on a path that is taken, \<open>shutil.rmtree\<close> of anything but a
  directory, \<open>os.listdir\<close> of anything but a directory. What lies below a snapshot
  directory is not part of the table.
\<close>

definition os_remove :: "string \<Rightarrow> filesystem \<Rightarrow> error + filesystem" where
  "os_remove p t =
     (case map_of t p of
        None \<Rightarrow> Inl OSError
      | Some Dir \<Rightarrow> Inl OSError
      | Some nd \<Rightarrow> Inr (unlink p t))"

definition os_mkdir :: "string \<Rightarrow> filesystem \<Rightarrow> error + filesystem" where
  "os_mkdir p t = (if os_path_lexists t p then Inl OSError else Inr ((p, Dir) # t))"

definition os_makedirs :: "string \<Rightarrow> filesystem \<Rightarrow> error + filesystem" where
  "os_makedirs p t = (if os_path_lexists t p then Inl OSError else Inr ((p, Dir) # t))"

definition os_symlink :: "string \<Rightarrow> string \<Rightarrow> filesystem \<Rightarrow> error + filesystem" where
  "os_symlink target p t =
     (if os_path_lexists t p then Inl OSError else Inr ((p, Symlink target) # t))"

definition shutil_rmtree :: "string \<Rightarrow> filesystem \<Rightarrow> error + filesystem" where
  "shutil_rmtree p t =
     (case map_of t p of Some Dir \<Rightarrow> Inr (unlink p t) | _ \<Rightarrow> Inl OSError)"

text \<open>The names of the entries of a directory: the paths of the table one level below it.\<close>

definition child_name :: "string \<Rightarrow> string \<Rightarrow> string option" where
  "child_name d q =
     (let pre = (if d = [] \<or> last d = CHR ''/'' then d else d @ ''/'')
      in if take (length pre) q = pre \<and> drop (length pre) q \<noteq> []
            \<and> CHR ''/'' \<notin> set (drop (length pre) q)
         then Some (drop (length pre) q) else None)"

definition entries :: "filesystem \<Rightarrow> string \<Rightarrow> string list" where
  "entries t d = remdups (List.map_filter (child_name d) (map fst t))"

definition os_listdir :: "filesystem \<Rightarrow> string \<Rightarrow> error + string list" where
  "os_listdir t d = (if follow 41 t d = Some Dir then Inr (entries t d) else Inl OSError)"

subsection \<open>Commands on a remote destination\<close>

text \<open>
  For a remote destination the same table lives on the remote host and every step is a
  command run there through \<open>ssh\<close>; \<open>_run\<close> returns its exit status and output and
  never raises for a failing command. The commands are modelled by what they do on a
  POSIX host that \<open>ssh\<close> reaches: \<open>ls\<close>, \<open>mkdir -p\<close>, \<open>readlink\<close>, the tests \<open>[ -e ]\<close>
  and \<open>[ -L ]\<close>, \<open>rm\<close>, \<open>ln -s\<close> and \<open>rm -fr\<close>.
\<close>

definition remote_ls_returncode :: "filesystem \<Rightarrow> string \<Rightarrow> int" where
  "remote_ls_returncode t p = (if os_path_lexists t p then 0 else 2)"

definition remote_mkdir_p :: "string \<Rightarrow> filesystem \<Rightarrow> filesystem" where
  "remote_mkdir_p p t = (if os_path_lexists t p then t else (p, Dir) # t)"

text \<open>
  The output of \<open>ls -1 --color=none\<close>, split at the newlines: the names in order, hidden
  names left out, and the empty string after the last newline.
\<close>

definition remote_ls_1 :: "filesystem \<Rightarrow> string \<Rightarrow> string list" where
  "remote_ls_1 t d =
     (if follow 41 t d = Some Dir
      then sort (filter (\<lambda>n. hd n \<noteq> CHR ''.'') (entries t d)) @ [[]]
      else if follow 41 t d = Some File then [d, []]
      else [[]])"

definition isspace :: "char \<Rightarrow> bool" where
  "isspace c \<longleftrightarrow> c \<in> set [CHR '' '', CHR 0x09, CHR 0x0A, CHR 0x0B, CHR 0x0C, CHR 0x0D]"

definition strip :: "string \<Rightarrow> string" where
  "strip s = rev (dropWhile isspace (rev (dropWhile isspace s)))"

definition remote_rm :: "string \<Rightarrow> filesystem \<Rightarrow> filesystem" where
  "remote_rm p t =
     (case map_of t p of None \<Rightarrow> t | Some Dir \<Rightarrow> t | Some nd \<Rightarrow> unlink p t)"

definition basename :: "string \<Rightarrow> string" where
  "basename p = rev (takeWhile (\<lambda>c. c \<noteq> CHR ''/'') (rev p))"

text \<open>
  \<open>ln -s target p\<close> makes the link at \<open>p\<close> when nothing is there; when \<open>p\<close> is a
  directory (or a link to one) it makes the link inside it, and otherwise it fails.
\<close>

definition remote_ln_s :: "string \<Rightarrow> string \<Rightarrow> filesystem \<Rightarrow> filesystem" where
  "remote_ln_s target p t =
     (if \<not> os_path_lexists t p then (p, Symlink target) # t
      else if follow 41 t p = Some Dir
              \<and> \<not> os_path_lexists t (path_join p (basename target))
      then (path_join p (basename target), Symlink target) # t
      else t)"

definition remote_rm_fr :: "string \<Rightarrow> filesystem \<Rightarrow> filesystem" where
  "remote_rm_fr p t = unlink p t"

text \<open>
  \<open>cp -arl src dst\<close>, locally or on the remote host. It fails when the source is
  missing, when the target is taken by something that is not a directory, or when the
  environment makes it fail (\<open>ok\<close> is \<open>False\<close>); copying into a directory that is
  already there changes nothing that the table holds.
\<close>

definition cp_arl :: "bool \<Rightarrow> string \<Rightarrow> string \<Rightarrow> filesystem \<Rightarrow> int \<times> filesystem" where
  "cp_arl ok src dst t =
     (case map_of t src of
        None \<Rightarrow> (1, t)
      | Some nd \<Rightarrow>
          if \<not> ok then (1, t)
          else if \<not> os_path_lexists t dst then (0, (dst, nd) # t)
          else if follow 41 t dst = Some Dir then (0, t)
          else (1, t))"

section \<open>The environment of a run\<close>

text \<open>
  What a run reads from outside the destination's table: the library's parser
  \<open>strptime\<close> for the format \<open>%Y-%m-%d_%H:%M:%S_GMT\<close> (\<open>None\<close> is \<open>ValueError\<close>), what
  \<open>_get_stat\<close> returns before and after the backup, the two readings of \<open>utcnow()\<close> (in
  \<open>_take_snapshot\<close> and in \<open>_smart_remove\<close>), whether the environment lets \<open>cp\<close>
  succeed, what running \<open>rsync\<close> gives, whether the lock can be taken, and the name
  of the invoking user.
\<close>

datatype rsync_result = Returncode int | Raises

record env =
  strptime :: "string \<Rightarrow> datetime option"
  stat_before :: "error + stat"
  stat_after :: "error + stat"
  utcnow :: datetime
  utcnow_remove :: datetime
  cp_ok :: bool
  rsync :: rsync_result
  lock_free :: bool
  getuser :: string

section \<open>The destination address\<close>

text \<open>
  \<open>REMOTE_PAT\<close> matched against the destination: an optional user followed by \<open>@\<close>, a
  host followed by a colon, and a path of at least one character on one line. The
  property \<open>is_dst_remote\<close> is whether it matches, and \<open>_dst_path\<close> is the path group
  of the match, or the destination itself when there is none.
\<close>

definition user_char :: "char \<Rightarrow> bool" where
  "user_char c \<longleftrightarrow>
     (CHR ''A'' \<le> c \<and> c \<le> CHR ''Z'') \<or> (CHR ''a'' \<le> c \<and> c \<le> CHR ''z'')
     \<or> (CHR ''0'' \<le> c \<and> c \<le> CHR ''9'') \<or> c \<in> set ''._%+-''"

definition host_char :: "char \<Rightarrow> bool" where
  "host_char c \<longleftrightarrow>
     (CHR ''A'' \<le> c \<and> c \<le> CHR ''Z'') \<or> (CHR ''a'' \<le> c \<and> c \<le> CHR ''z'')
     \<or> (CHR ''0'' \<le> c \<and> c \<le> CHR ''9'') \<or> c \<in> set ''.-''"

definition match_host_path :: "string \<Rightarrow> (string \<times> string) option" where
  "match_host_path s =
     (let host = takeWhile host_char s; rest = dropWhile host_char s
      in if host \<noteq> [] \<and> rest \<noteq> [] \<and> hd rest = CHR '':''
         then let path = takeWhile (\<lambda>c. c \<noteq> CHR 0x0A) (tl rest);
                  after = dropWhile (\<lambda>c. c \<noteq> CHR 0x0A) (tl rest)
              in if path \<noteq> [] \<and> (after = [] \<or> after = [CHR 0x0A])
                 then Some (host, path) else None
         else None)"

text \<open>The groups \<open>user\<close>, \<open>host\<close> and \<open>path\<close> of a match.\<close>

definition REMOTE_PAT_match :: "string \<Rightarrow> (string option \<times> string \<times> string) option" where
  "REMOTE_PAT_match s =
     (let user = takeWhile user_char s; rest = dropWhile user_char s
      in if user \<noteq> [] \<and> rest \<noteq> [] \<and> hd rest = CHR ''@''
            \<and> match_host_path (tl rest) \<noteq> None
         then map_option (\<lambda>(host, path). (Some user, host, path)) (match_host_path (tl rest))
         else map_option (\<lambda>(host, path). (None, host, path)) (match_host_path s))"

definition is_dst_remote :: "config \<Rightarrow> bool" where
  "is_dst_remote conf \<longleftrightarrow> REMOTE_PAT_match (destination conf) \<noteq> None"

definition dst_path :: "config \<Rightarrow> string" where
  "dst_path conf =
     (case REMOTE_PAT_match (destination conf) of
        Some (user, host, path) \<Rightarrow> path
      | None \<Rightarrow> destination conf)"

text \<open>\<open>_dst_rsync_partial\<close>; a match without a user takes \<open>getpass.getuser()\<close>.\<close>

definition dst_rsync_partial :: "env \<Rightarrow> config \<Rightarrow> string" where
  "dst_rsync_partial ev conf =
     (case REMOTE_PAT_match (destination conf) of
        Some (Some user, host, path) \<Rightarrow> user @ ''@'' @ host
      | Some (None, host, path) \<Rightarrow> getuser ev @ ''@'' @ host
      | None \<Rightarrow> [])"

section \<open>Discovery of snapshots\<close>

text \<open>
  \<open>now.strftime("%Y-%m-%d_%H:%M:%S_GMT")\<close>: every field in decimal, padded with
  zeros to its width.
\<close>

definition digits :: "nat \<Rightarrow> int \<Rightarrow> string" where
  "digits w n = map (\<lambda>i. ''0123456789'' ! nat (n div 10 ^ (w - 1 - i) mod 10)) [0..<w]"

definition strftime :: "datetime \<Rightarrow> string" where
  "strftime dt =
     digits 4 (year dt) @ ''-'' @ digits 2 (month dt) @ ''-'' @ digits 2 (day dt) @ ''_''
     @ digits 2 (hour dt) @ '':'' @ digits 2 (minute dt) @ '':'' @ digits 2 (second dt)
     @ ''_GMT''"

text \<open>
  \<open>_find_snapshots\<close>: the listing of the destination (\<open>os.listdir\<close>, or the output of
  \<open>ls\<close> on the remote host), the names that the parser accepts paired with their paths,
  sorted.
\<close>

definition find_snapshots :: "env \<Rightarrow> config \<Rightarrow> filesystem \<Rightarrow> error + snapshot list" where
  "find_snapshots ev conf t =
     bind_err (if is_dst_remote conf then Inr (remote_ls_1 t (dst_path conf))
               else os_listdir t (destination conf)) (\<lambda>res.
       Inr (sort (List.map_filter
                    (\<lambda>entry. map_option (\<lambda>dt. (dt, path_join (dst_path conf) entry))
                                (strptime ev entry)) res)))"

section \<open>The pointer to the latest snapshot\<close>

text \<open>The dictionary that \<open>_get_file_stat\<close> returns.\<close>

record file_stat =
  exists :: bool
  broken :: bool
  islink :: bool
  target :: "string option"

definition get_file_stat :: "config \<Rightarrow> filesystem \<Rightarrow> string \<Rightarrow> file_stat" where
  "get_file_stat conf t latest =
     (let result = \<lparr>exists = False, broken = False, islink = False, target = None\<rparr>
      in if is_dst_remote conf
         then
           let result = (case os_readlink t latest of
                           Inr out \<Rightarrow> result\<lparr>target := Some (strip out)\<rparr>
                         | Inl e \<Rightarrow> result);
               result = (if \<not> os_path_exists t latest then result\<lparr>broken := True\<rparr>
                         else result\<lparr>exists := True\<rparr>);
               result = (if os_path_islink t latest
                         then result\<lparr>exists := True, islink := True\<rparr>
                         else result)
           in result
         else if os_path_islink t latest
         then result\<lparr>islink := os_path_islink t latest,
                     exists := os_path_islink t latest,
                     broken := \<not> os_path_exists t latest,
                     target := (case os_readlink t latest of
                                  Inr content \<Rightarrow> Some (path_join (dst_path conf) content)
                                | Inl e \<Rightarrow> None)\<rparr>
         else result\<lparr>exists := os_path_islink t latest\<rparr>)"

section \<open>Steps that change the world\<close>

text \<open>
  A step returns a value or raises, and leaves a world behind in both cases. A call
  of the \<open>os\<close> module that raises leaves the filesystem as it was; a remote command
  never raises.
\<close>

type_synonym 'a result = "(error + 'a) \<times> world"

definition and_then :: "'a result \<Rightarrow> ('a \<Rightarrow> world \<Rightarrow> 'b result) \<Rightarrow> 'b result" where
  "and_then r f = (case r of (Inl e, w) \<Rightarrow> (Inl e, w) | (Inr x, w) \<Rightarrow> f x w)"

definition local_call :: "(filesystem \<Rightarrow> error + filesystem) \<Rightarrow> world \<Rightarrow> unit result" where
  "local_call f w = (case f (fs w) of Inl e \<Rightarrow> (Inl e, w) | Inr t \<Rightarrow> (Inr (), w\<lparr>fs := t\<rparr>))"

definition remote_call :: "(filesystem \<Rightarrow> filesystem) \<Rightarrow> world \<Rightarrow> unit result" where
  "remote_call f w = (Inr (), w\<lparr>fs := f (fs w)\<rparr>)"

definition log_step :: "level \<Rightarrow> string \<Rightarrow> arg list \<Rightarrow> world \<Rightarrow> unit result" where
  "log_step lv msg args w = (Inr (), logging lv msg args w)"

definition raise :: "error \<Rightarrow> world \<Rightarrow> 'a result" where
  "raise e w = (Inl e, w)"

section \<open>Synchronization\<close>

definition RSYNC_ARGS :: "string list" where
  "RSYNC_ARGS =
     [''--delete'', ''--delete-excluded'', ''--group'', ''--hard-links'',
      ''--itemize-changes'', ''--links'', ''--numeric-ids'', ''--one-file-system'',
      ''--owner'', ''--perms'', ''--progress'', ''--recursive'', ''--relative'',
      ''--times'', ''-D'', ''-q'']"

definition RSYNC_EXIT_CODE :: "(int \<times> string) list" where
  "RSYNC_EXIT_CODE =
     [(0, ''Success''),
      (1, ''Syntax or usage error''),
      (2, ''Protocol incompatibility''),
      (3, ''Errors selecting input/output files, dirs''),
      (4, ''Requested action not supported: an attempt was made to ''
            @ ''manipulate 64-bit files on a platform that cannot support ''
            @ ''them; or an option was specified that is supported by the ''
            @ ''client and not by the server.''),
      (5, ''Error starting client-server protocol''),
      (6, ''Daemon unable to append to log-file''),
      (10, ''Error in socket I/O''),
      (11, ''Error in file I/O''),
      (12, ''Error in rsync protocol data stream''),
      (13, ''Errors with program diagnostics''),
      (14, ''Error in IPC code''),
      (20, ''Received SIGUSR1 or SIGINT''),
      (21, ''Some error returned by waitpid()''),
      (22, ''Error allocating core memory buffers''),
      (23, ''Partial transfer due to error''),
      (24, ''Partial transfer due to vanished source files''),
      (25, ''The --max-delete limit stopped deletions''),
      (30, ''Timeout in data send/receive''),
      (35, ''Timeout waiting for daemon connection'')]"

definition join_space :: "string list \<Rightarrow> string" where
  "join_space xs = (case xs of [] \<Rightarrow> [] | x # rest \<Rightarrow> x @ concat (map (\<lambda>y. '' '' @ y) rest))"

text \<open>
  \<open>_run_rsync\<close>. A status that \<open>RSYNC_EXIT_CODE\<close> does not list raises \<open>KeyError\<close> while
  the arguments of the error message are built; the handler of \<open>Exception\<close> catches it,
  as it catches what \<open>_run\<close> itself raises. The function always returns.
\<close>

definition run_rsync :: "env \<Rightarrow> string list \<Rightarrow> world \<Rightarrow> unit result" where
  "run_rsync ev args w =
     (let w1 = logging INFO ''running cmd: %s'' [S (join_space (''rsync'' # args))] w
      in case rsync ev of
           Raises \<Rightarrow> (Inr (), logging ERROR ''Rsync Exception'' [] w1)
         | Returncode rc \<Rightarrow>
             if rc = 0 then (Inr (), logging INFO ''Rsynced successfully'' [] w1)
             else (case map_of RSYNC_EXIT_CODE rc of
                     Some reason \<Rightarrow>
                       (Inr (), logging ERROR ''Rsync Error %d, %s'' [I rc, S reason] w1)
                   | None \<Rightarrow> (Inr (), logging ERROR ''Rsync Exception'' [] w1)))"

section \<open>Removal of old snapshots\<close>

text \<open>
  The last loop of \<open>_smart_remove\<close>: each snapshot of the list is logged and removed,
  by \<open>rm -fr\<close> on a remote destination and by \<open>shutil.rmtree\<close> on a local one.
\<close>

fun delete_loop :: "config \<Rightarrow> string list \<Rightarrow> world \<Rightarrow> unit result" where
  "delete_loop conf [] w = (Inr (), w)"
| "delete_loop conf (snapshot # rest) w =
     and_then (log_step INFO ''Delete snapshot %s'' [S snapshot] w) (\<lambda>_ w.
     and_then (if is_dst_remote conf then remote_call (remote_rm_fr snapshot) w
               else local_call (shutil_rmtree snapshot) w) (\<lambda>_ w.
     delete_loop conf rest w))"

definition smart_remove :: "env \<Rightarrow> config \<Rightarrow> snapshot list \<Rightarrow> world \<Rightarrow> unit result" where
  "smart_remove ev conf snapshots w =
     (if length snapshots \<le> 1
      then log_step INFO ''There is only one snapshots, so keep it'' [] w
      else case del_snapshots conf (utcnow_remove ev) snapshots of
             Inl e \<Rightarrow> raise e w
           | Inr dels \<Rightarrow>
               if dels = [] then log_step INFO ''No snapshot to remove'' [] w
               else delete_loop conf dels w)"

section \<open>Snapshot creation\<close>

text \<open>
  The three arms of the \<open>if\<close> of \<open>_take_snapshot\<close> and the conditions that select them.
\<close>

datatype branch = Clone | Recreate | First

definition branch_of :: "snapshot list \<Rightarrow> file_stat \<Rightarrow> branch" where
  "branch_of snapshots latest_stat =
     (if length snapshots > 0 \<and> exists latest_stat then Clone
      else if length snapshots > 0 \<and> \<not> exists latest_stat then Recreate
      else First)"

text \<open>
  The first arm: the hard-link copy of the pointer's target, run by \<open>cp\<close> here or on
  the remote host. A target that is \<open>None\<close> cannot be an argument of the command
  (\<open>TypeError\<close>).
\<close>

definition clone_last :: "env \<Rightarrow> file_stat \<Rightarrow> string \<Rightarrow> world \<Rightarrow> unit result" where
  "clone_last ev latest_stat backup_dst w =
     and_then (log_step INFO ''Copying last snapshot.'' [] w) (\<lambda>_ w.
       case target latest_stat of
         None \<Rightarrow> raise TypeError w
       | Some last_snapshot \<Rightarrow>
           let res = cp_arl (cp_ok ev) last_snapshot backup_dst (fs w);
               w = w\<lparr>fs := snd res\<rparr>
           in if fst res \<noteq> 0
              then and_then (log_step ERROR ''Unable to clone last snapshot, abort.'' [] w)
                     (\<lambda>_ w. raise (SystemExit 2) w)
              else (Inr (), w))"

text \<open>The second arm, which always ends the run.\<close>

definition recreate_latest :: "config \<Rightarrow> file_stat \<Rightarrow> string \<Rightarrow> string \<Rightarrow> world \<Rightarrow> unit result" where
  "recreate_latest conf latest_stat backup_dst latest w =
     and_then
       (if islink latest_stat
        then and_then (if is_dst_remote conf then remote_call (remote_rm latest) w
                       else local_call (os_remove latest) w) (\<lambda>_ w.
               log_step ERROR
                 (''Error, the '' @ [CHR 0x22] @ ''latest'' @ [CHR 0x22] @ '' symbol link is broken and ''
                    @ ''will be recreated empty for next backup...'') [] w)
        else log_step ERROR
               (''Error, cannot find the last snapshot, maybe ''
                  @ ''the '' @ [CHR 0x22] @ ''latest'' @ [CHR 0x22] @ '' symbol link has been deleted. We ''
                  @ ''will recreate it empty for next backup...'') [] w) (\<lambda>_ w.
     and_then
       (if is_dst_remote conf
        then and_then (remote_call (remote_mkdir_p backup_dst) w) (\<lambda>_ w.
               remote_call (remote_ln_s backup_dst latest) w)
        else and_then (local_call (os_mkdir backup_dst) w) (\<lambda>_ w.
               local_call (os_symlink backup_dst latest) w)) (\<lambda>_ w.
     raise (SystemExit 2) w))"

text \<open>The third arm: no snapshot yet, a stale pointer is removed.\<close>

definition remove_stale_latest :: "config \<Rightarrow> string \<Rightarrow> world \<Rightarrow> unit result" where
  "remove_stale_latest conf latest w =
     (if is_dst_remote conf then remote_call (remote_rm latest) w
      else if os_path_lexists (fs w) latest then local_call (os_remove latest) w
      else (Inr (), w))"

text \<open>The directory of the new snapshot, and the pointer set to it after the transfer.\<close>

definition make_backup_dst :: "config \<Rightarrow> string \<Rightarrow> world \<Rightarrow> unit result" where
  "make_backup_dst conf backup_dst w =
     (if is_dst_remote conf then remote_call (remote_mkdir_p backup_dst) w
      else if \<not> os_path_exists (fs w) backup_dst then local_call (os_mkdir backup_dst) w
      else (Inr (), w))"

definition reseat_latest :: "config \<Rightarrow> string \<Rightarrow> string \<Rightarrow> world \<Rightarrow> unit result" where
  "reseat_latest conf backup_dst latest w =
     (if is_dst_remote conf
      then and_then (remote_call (remote_rm latest) w) (\<lambda>_ w.
             remote_call (remote_ln_s backup_dst latest) w)
      else if os_path_exists (fs w) latest
      then and_then (local_call (os_remove latest) w) (\<lambda>_ w.
             local_call (os_symlink backup_dst latest) w)
      else (Inr (), w))"

definition rsync_args :: "env \<Rightarrow> config \<Rightarrow> string \<Rightarrow> string list" where
  "rsync_args ev conf backup_dst =
     RSYNC_ARGS
     @ (case rsh_command conf of
          Some c \<Rightarrow> if c \<noteq> [] then [''-e'', c] else []
        | None \<Rightarrow> [])
     @ map (\<lambda>x. ''--exclude='' @ x) (exclude conf)
     @ sources conf
     @ [if is_dst_remote conf then dst_rsync_partial ev conf @ '':'' @ backup_dst
        else backup_dst]"

definition take_snapshot :: "env \<Rightarrow> config \<Rightarrow> world \<Rightarrow> unit result" where
  "take_snapshot ev conf w =
     (case find_snapshots ev conf (fs w) of
        Inl e \<Rightarrow> raise e w
      | Inr snapshots \<Rightarrow>
          let backup_dst = path_join (dst_path conf) (strftime (utcnow ev));
              latest = path_join (dst_path conf) ''latest'';
              latest_stat = get_file_stat conf (fs w) latest
          in and_then
               (case branch_of snapshots latest_stat of
                  Clone \<Rightarrow> clone_last ev latest_stat backup_dst w
                | Recreate \<Rightarrow> recreate_latest conf latest_stat backup_dst latest w
                | First \<Rightarrow> remove_stale_latest conf latest w) (\<lambda>_ w.
             and_then (make_backup_dst conf backup_dst w) (\<lambda>_ w.
             and_then (run_rsync ev (rsync_args ev conf backup_dst) w) (\<lambda>_ w.
             and_then (reseat_latest conf backup_dst latest w) (\<lambda>_ w.
             smart_remove ev conf snapshots w)))))"

section \<open>The run\<close>

definition create_dest_directory :: "config \<Rightarrow> world \<Rightarrow> unit result" where
  "create_dest_directory conf w =
     (if is_dst_remote conf
      then if remote_ls_returncode (fs w) (dst_path conf) \<noteq> 0
           then remote_call (remote_mkdir_p (dst_path conf)) w
           else (Inr (), w)
      else if \<not> os_path_exists (fs w) (destination conf)
      then local_call (os_makedirs (destination conf)) w
      else (Inr (), w))"

text \<open>
  \<open>_print_fs_stat\<close>: the percentages divide by the total space and by the total of
  inodes, and a total of zero raises \<open>ZeroDivisionError\<close>.
\<close>

definition print_fs_stat :: "stat \<Rightarrow> world \<Rightarrow> unit result" where
  "print_fs_stat st w =
     (let space_free = bavail st * bsize st; space_total = blocks st * bsize st
      in if space_total = 0 then raise ZeroDivisionError w
         else and_then (log_step INFO ''    free space: %s, %.1f%% used''
                          [I space_free, I space_total] w) (\<lambda>_ w.
                if check_inodes w
                then if files st = 0 then raise ZeroDivisionError w
                     else log_step INFO ''    free inodes: %s, %.1f%% used''
                            [I (ffree st), I (files st)] w
                else (Inr (), w)))"

text \<open>
  \<open>run\<close>, from the lock on: the configuration has been read. The lock is released on
  every way out, which changes nothing in the destination.
\<close>

definition run :: "env \<Rightarrow> config \<Rightarrow> world \<Rightarrow> unit result" where
  "run ev conf w =
     (if \<not> lock_free ev
      then and_then (log_step ERROR
                       (''Error: cannot obtain lock, there maybe another ''
                          @ ''time-machine is running'') [] w) (\<lambda>_ w.
           and_then (log_step INFO ''Backup task aborted!'' [] w) (\<lambda>_ w.
           raise (SystemExit 2) w))
      else
        and_then (log_step INFO ''Start backup to %s'' [S (destination conf)] w) (\<lambda>_ w.
        and_then (create_dest_directory conf w) (\<lambda>_ w.
        and_then (check_freespace conf (stat_before ev) w) (\<lambda>stat_b w.
        and_then (take_snapshot ev conf w) (\<lambda>_ w.
        and_then (log_step INFO ''Filesystem before backup:'' [] w) (\<lambda>_ w.
        and_then (print_fs_stat stat_b w) (\<lambda>_ w.
        and_then (log_step INFO ''Filesystem after backup:'' [] w) (\<lambda>_ w.
        and_then (case stat_after ev of Inl e \<Rightarrow> raise e w | Inr st \<Rightarrow> print_fs_stat st w)
          (\<lambda>_ w.
        log_step INFO ''All done'' [] w)))))))))"

text \<open>
  The exit status of the process: \<open>main\<close> ends with \<open>sys.exit(0)\<close>, \<open>SystemExit\<close> carries
  its own status, and an exception that nothing catches ends the process with 1.
\<close>

definition exit_status :: "unit result \<Rightarrow> int" where
  "exit_status r = (case fst r of Inr u \<Rightarrow> 0 | Inl (SystemExit n) \<Rightarrow> n | Inl e \<Rightarrow> 1)"

section \<open>Example values\<close>

text \<open>Three snapshots of a destination \<open>/backup\<close>, as discovery lists them.\<close>

definition snaps3 :: "snapshot list" where
  "snaps3 =
     [(Datetime 2026 11 4 10 0 0 0, ''/backup/2026-11-04_10:00:00_GMT''),
      (Datetime 2026 11 3 10 0 0 0, ''/backup/2026-11-03_10:00:00_GMT''),
      (Datetime 2026 11 3 8 0 0 0, ''/backup/2026-11-03_08:00:00_GMT'')]"

text \<open>
  A parser for the examples: it reads the names in which every field has its full
  width, as \<open>strftime\<close> writes them, where the library's \<open>strptime\<close> gives the same
  timestamp, and rejects every other name.
\<close>

definition number :: "string \<Rightarrow> int option" where
  "number s =
     (if s \<noteq> [] \<and> set s \<subseteq> set ''0123456789''
      then Some (foldl (\<lambda>n c. 10 * n + the (map_of (zip ''0123456789'' [0..9]) c)) 0 s)
      else None)"

definition strptime_padded :: "string \<Rightarrow> datetime option" where
  "strptime_padded s =
     (if length s = 23 \<and> s ! 4 = CHR ''-'' \<and> s ! 7 = CHR ''-'' \<and> s ! 10 = CHR ''_''
         \<and> s ! 13 = CHR '':'' \<and> s ! 16 = CHR '':'' \<and> drop 19 s = ''_GMT''
      then case (number (take 4 s), number (take 2 (drop 5 s)), number (take 2 (drop 8 s)),
                 number (take 2 (drop 11 s)), number (take 2 (drop 14 s)),
                 number (take 2 (drop 17 s))) of
             (Some y, Some m, Some d, Some hh, Some mm, Some ss) \<Rightarrow>
               (case datetime y m d hh mm ss of Inr dt \<Rightarrow> Some dt | Inl e \<Rightarrow> None)
           | _ \<Rightarrow> None
      else None)"

text \<open>
  An environment in which nothing fails: the run starts on 4 November 2026 at noon, the
  filesystem has room, \<open>cp\<close> and \<open>rsync\<close> succeed and the lock is free.
\<close>

definition roomy_stat :: stat where
  "roomy_stat = \<lparr>ffree = 5000000, files = 6000000, bavail = 1000000, bsize = 4096,
                 blocks = 2000000\<rparr>"

definition calm_env :: env where
  "calm_env =
     \<lparr>strptime = strptime_padded, stat_before = Inr roomy_stat, stat_after = Inr roomy_stat,
      utcnow = Datetime 2026 11 4 12 0 0 250000,
      utcnow_remove = Datetime 2026 11 4 12 0 7 500000,
      cp_ok = True, rsync = Returncode 0, lock_free = True, getuser = ''root''\<rparr>"

definition start_world :: "filesystem \<Rightarrow> world" where
  "start_world t = \<lparr>fs = t, log = [], check_inodes = True\<rparr>"

text \<open>A destination in which \<open>latest\<close> is a directory, not a link.\<close>

definition plain_latest_fs :: filesystem where
  "plain_latest_fs = [(''/backup'', Dir), (''/backup/latest'', Dir)]"

text \<open>
  An empty local destination; the same destination addressed through a remote host;
  and a destination with one snapshot whose pointer names a directory that is gone.
\<close>

definition empty_dest_fs :: filesystem where
  "empty_dest_fs = [(''/backup'', Dir)]"

definition remote_conf :: config where
  "remote_conf = default_conf\<lparr>destination := ''host:/backup''\<rparr>"

definition broken_latest_fs :: filesystem where
  "broken_latest_fs =
     [(''/backup'', Dir), (''/backup/2026-11-03_10:00:00_GMT'', Dir),
      (''/backup/latest'', Symlink ''/backup/2026-11-01_10:00:00_GMT'')]"


section \<open>Properties of the capacity check\<close>



section \<open>Properties of retention\<close>

lemma sorted_le_last:
  fixes x :: "'a :: linorder"
  shows "x \<in> set xs \<Longrightarrow> sorted xs \<Longrightarrow> x \<le> last xs"
  by (induction xs) auto

lemma last_sort_greatest:
  fixes x :: "'a :: linorder"
  assumes "x \<in> set xs" "\<forall>y \<in> set xs. y \<le> x"
  shows "last (sort xs) = x"
proof -
  have ne: "sort xs \<noteq> []" using assms(1) by (metis empty_iff empty_set set_sort)
  then have "last (sort xs) \<in> set xs" by (metis last_in_set set_sort)
  then have a: "last (sort xs) \<le> x" using assms(2) by blast
  have "x \<in> set (sort xs)" using assms(1) by simp
  then have b: "x \<le> last (sort xs)"
    using sorted_sort[of xs] by (rule sorted_le_last)
  from a b show ?thesis by simp
qed

lemma bind_err_Inr:
  "bind_err m f = Inr y \<longleftrightarrow> (\<exists>x. m = Inr x \<and> f x = Inr y)"
  by (cases m) (simp_all add: bind_err_def)

lemma keep_snapshots_last:
  assumes "keep_snapshots conf now snapshots = Inr keep"
  shows "snd (last snapshots) \<in> set keep"
  using assms unfolding keep_snapshots_def
  by (auto simp: bind_err_Inr split: if_splits)

text \<open>
  C2. For every non-empty list of snapshots passed to retention and every
  configuration, the snapshot with the greatest timestamp (the greatest path among
  snapshots of that same timestamp, as the sort of the pairs decides) is in the keep
  list that \<open>_smart_remove\<close> builds from the sorted list, and is not in the list of
  snapshots to delete.
\<close>

theorem latest_snapshot_is_kept:
  assumes "(dt, p) \<in> set snapshots"
    and "\<forall>(dt', p') \<in> set snapshots. dt' < dt \<or> (dt' = dt \<and> p' \<le> p)"
  shows "(\<forall>keep. keep_snapshots conf now (sort snapshots) = Inr keep \<longrightarrow> p \<in> set keep)
       \<and> (\<forall>del. del_snapshots conf now snapshots = Inr del \<longrightarrow> p \<notin> set del)"
proof -
  have "\<forall>s \<in> set snapshots. s \<le> (dt, p)"
    using assms(2) by (auto simp: less_eq_prod_def)
  then have l: "last (sort snapshots) = (dt, p)"
    using assms(1) by (intro last_sort_greatest) auto
  have k: "p \<in> set keep" if "keep_snapshots conf now (sort snapshots) = Inr keep" for keep
    using keep_snapshots_last[OF that] l by simp
  have d: "p \<notin> set del" if "del_snapshots conf now snapshots = Inr del" for del
    using that k unfolding del_snapshots_def
    by (auto simp: bind_err_Inr split: if_splits)
  from k d show ?thesis by blast
qed

theorem latest_snapshot_is_kept_witness:
  "(Datetime 2026 11 4 10 0 0 0, ''/backup/2026-11-04_10:00:00_GMT'') \<in> set snaps3
   \<and> del_snapshots default_conf (Datetime 2026 11 4 12 0 0 5) snaps3
       = Inr [''/backup/2026-11-03_08:00:00_GMT'']
   \<and> ''/backup/2026-11-04_10:00:00_GMT'' \<notin> set [''/backup/2026-11-03_08:00:00_GMT'']"
proof -
  have h1: "(Datetime 2026 11 4 10 0 0 0, ''/backup/2026-11-04_10:00:00_GMT'') \<in> set snaps3"
    by (simp add: snaps3_def)
  have h2: "\<forall>(dt', p') \<in> set snaps3. dt' < Datetime 2026 11 4 10 0 0 0
              \<or> (dt' = Datetime 2026 11 4 10 0 0 0 \<and> p' \<le> ''/backup/2026-11-04_10:00:00_GMT'')"
    by (simp add: snaps3_def less_datetime_def dt_key_def)
  have e: "del_snapshots default_conf (Datetime 2026 11 4 12 0 0 5) snaps3
       = Inr [''/backup/2026-11-03_08:00:00_GMT'']"
    by code_simp
  from latest_snapshot_is_kept[OF h1 h2, of default_conf "Datetime 2026 11 4 12 0 0 5"] e h1
  show ?thesis by blast
qed

section \<open>Properties of the pointer\<close>

lemma map_of_unlink_same: "map_of (unlink p t) p = None"
  by (induction t) (auto simp: unlink_def)

lemma map_of_unlink_other: "q \<noteq> p \<Longrightarrow> map_of (unlink p t) q = map_of t q"
  by (induction t) (auto simp: unlink_def)

text \<open>
  C10. On a local destination, an entry at the pointer's path that is a directory or a
  regular file is reported by \<open>_get_file_stat\<close> exactly as no entry at all: nothing
  exists, nothing is broken, nothing is a link and there is no target. So the choice
  among the three arms of \<open>_take_snapshot\<close> is the one for a missing pointer: the
  second arm when there are snapshots, the third when there are none. Whenever the
  report says that the pointer exists, is broken, is a link or has a target, the entry
  is a symbolic link.
\<close>

theorem local_non_symlink_latest_reads_as_missing:
  assumes "\<not> is_dst_remote conf"
  shows "(map_of t latest = Some Dir \<or> map_of t latest = Some File \<longrightarrow>
            get_file_stat conf t latest
              = \<lparr>exists = False, broken = False, islink = False, target = None\<rparr>
          \<and> get_file_stat conf t latest = get_file_stat conf (unlink latest t) latest
          \<and> branch_of snapshots (get_file_stat conf t latest)
              = (if snapshots = [] then First else Recreate))
       \<and> (exists (get_file_stat conf t latest) \<or> broken (get_file_stat conf t latest)
            \<or> islink (get_file_stat conf t latest) \<or> target (get_file_stat conf t latest) \<noteq> None
          \<longrightarrow> (\<exists>content. map_of t latest = Some (Symlink content)))"
proof -
  have absent: "get_file_stat conf (unlink latest t) latest
      = \<lparr>exists = False, broken = False, islink = False, target = None\<rparr>"
    using assms by (simp add: get_file_stat_def os_path_islink_def map_of_unlink_same)
  have plain: "get_file_stat conf t latest
      = \<lparr>exists = False, broken = False, islink = False, target = None\<rparr>"
    if "map_of t latest = Some Dir \<or> map_of t latest = Some File"
    using assms that by (auto simp: get_file_stat_def os_path_islink_def)
  have only_links: "\<exists>content. map_of t latest = Some (Symlink content)"
    if "exists (get_file_stat conf t latest) \<or> broken (get_file_stat conf t latest)
        \<or> islink (get_file_stat conf t latest) \<or> target (get_file_stat conf t latest) \<noteq> None"
    using assms that
    by (auto simp: get_file_stat_def os_path_islink_def Let_def
             split: if_splits option.splits node.splits)
  show ?thesis
    using absent plain only_links by (auto simp: branch_of_def)
qed

theorem local_non_symlink_latest_reads_as_missing_witness:
  "\<not> is_dst_remote default_conf
   \<and> map_of plain_latest_fs ''/backup/latest'' = Some Dir
   \<and> get_file_stat default_conf plain_latest_fs ''/backup/latest''
       = \<lparr>exists = False, broken = False, islink = False, target = None\<rparr>
   \<and> get_file_stat default_conf plain_latest_fs ''/backup/latest''
       = get_file_stat default_conf [(''/backup'', Dir)] ''/backup/latest''
   \<and> branch_of snaps3 (get_file_stat default_conf plain_latest_fs ''/backup/latest'') = Recreate"
proof -
  have l: "\<not> is_dst_remote default_conf"
    by code_simp
  have d: "map_of plain_latest_fs ''/backup/latest'' = Some Dir"
    by (simp add: plain_latest_fs_def)
  have u: "unlink ''/backup/latest'' plain_latest_fs = [(''/backup'', Dir)]"
    by (simp add: plain_latest_fs_def unlink_def)
  have s: "snaps3 \<noteq> []" by (simp add: snaps3_def)
  note T = local_non_symlink_latest_reads_as_missing
            [OF l, of plain_latest_fs "''/backup/latest''" snaps3, unfolded u]
  from T d have c: "get_file_stat default_conf plain_latest_fs ''/backup/latest''
       = \<lparr>exists = False, broken = False, islink = False, target = None\<rparr>
   \<and> get_file_stat default_conf plain_latest_fs ''/backup/latest''
       = get_file_stat default_conf [(''/backup'', Dir)] ''/backup/latest''
   \<and> branch_of snaps3 (get_file_stat default_conf plain_latest_fs ''/backup/latest'')
       = (if snaps3 = [] then First else Recreate)"
    by blast
  from c have "branch_of snaps3 (get_file_stat default_conf plain_latest_fs ''/backup/latest'')
       = (if snaps3 = [] then First else Recreate)"
    by blast
  then have r: "branch_of snaps3 (get_file_stat default_conf plain_latest_fs ''/backup/latest'')
       = Recreate"
    using s by simp
  from c r l d show ?thesis by blast
qed

section \<open>Properties of snapshot creation\<close>

text \<open>
  C1. The claim is that every run that reaches the synchronization ends with the
  pointer resolving to the new snapshot, in particular the first run into an empty
  destination. On a local destination the pointer is only set when \<open>latest\<close> already
  resolves: the first run into the empty \<open>/backup\<close> completes, creates the snapshot
  directory, and leaves no \<open>latest\<close> behind. The same run on a remote destination,
  which removes and creates the link without a test, ends with \<open>latest\<close> pointing at
  the new snapshot.
\<close>

theorem first_local_snapshot_leaves_no_pointer:
  "fst (run calm_env default_conf (start_world empty_dest_fs)) = Inr ()
   \<and> fs (snd (run calm_env default_conf (start_world empty_dest_fs)))
       = [(''/backup/2026-11-04_12:00:00_GMT'', Dir), (''/backup'', Dir)]
   \<and> \<not> os_path_lexists (fs (snd (run calm_env default_conf (start_world empty_dest_fs))))
         ''/backup/latest''
   \<and> fst (run calm_env remote_conf (start_world empty_dest_fs)) = Inr ()
   \<and> map_of (fs (snd (run calm_env remote_conf (start_world empty_dest_fs)))) ''/backup/latest''
       = Some (Symlink ''/backup/2026-11-04_12:00:00_GMT'')"
  by code_simp

text \<open>
  C4. The claim is that a run that finds snapshots and a pointer that does not resolve
  creates an empty snapshot directory, points \<open>latest\<close> at it and exits with status 2.
  For a link whose target is gone \<open>_get_file_stat\<close> reports \<open>exists\<close>, so the run takes
  the first arm: the copy of the missing target fails, the run logs that it cannot
  clone and exits with status 2, and the destination is left as it was, with no new
  directory and the broken link in place.
\<close>

theorem broken_latest_is_not_recreated:
  "exists (get_file_stat default_conf broken_latest_fs ''/backup/latest'')
   \<and> broken (get_file_stat default_conf broken_latest_fs ''/backup/latest'')
   \<and> fst (run calm_env default_conf (start_world broken_latest_fs)) = Inl (SystemExit 2)
   \<and> fs (snd (run calm_env default_conf (start_world broken_latest_fs))) = broken_latest_fs
   \<and> log (snd (run calm_env default_conf (start_world broken_latest_fs)))
       = [(INFO, ''Start backup to %s'', [S ''/backup'']),
          (INFO, ''Copying last snapshot.'', []),
          (ERROR, ''Unable to clone last snapshot, abort.'', [])]"
  by code_simp

section \<open>Properties of the run\<close>

lemma fs_logging [simp]: "fs (logging lv msg args w) = fs w"
  by (simp add: logging_def)

lemma check_inodes_logging [simp]: "check_inodes (logging lv msg args w) = check_inodes w"
  by (simp add: logging_def)


lemma check_freespace_fs [simp]: "fs (snd (check_freespace conf got w)) = fs w"
  by (auto simp: check_freespace_def Let_def split: sum.splits)





end
